theory Spec2Isabelle
  imports Complex_Main "HOL-Library.Log_Nat"
begin

section \<open>The simulated server of \<open>server/server.py\<close>\<close>

text \<open>
  The two ambient effects of the source are made arguments: every call of
  \<open>time.time()\<close> is a clock reading handed in by the caller, and the results of
  \<open>random.uniform(-0.1, 0.1)\<close> and \<open>random.random()\<close> are the draws \<open>u\<close> and \<open>r\<close>.
  Python floats are read as real numbers, which is enough for the order and bound
  properties below; where the last bit of a result matters, \<open>update_state_fl\<close> is the same
  function with every operation rounded to double precision.
\<close>

subsection \<open>\<open>ServerState\<close>\<close>

record ServerState =
  latency :: real
  error_rate :: real
  error_state :: bool
  last_request_time :: real

text \<open>\<open>ServerState.__init__\<close>; the argument is the reading of \<open>time.time()\<close>.\<close>

definition ServerState_init :: "real \<Rightarrow> ServerState" where
  "ServerState_init t =
     \<lparr>latency = 0, error_rate = 0.01, error_state = False, last_request_time = t\<rparr>"

definition reset :: "ServerState \<Rightarrow> ServerState" where
  "reset s = s\<lparr>latency := 0, error_state := False\<rparr>"

text \<open>
  \<open>simulate_latency\<close> prints and then sleeps for \<open>self.latency\<close> seconds;
  \<open>time.sleep\<close> raises \<open>ValueError\<close> on a negative duration. The model returns the
  duration slept.
\<close>

datatype py_error = ValueError

definition simulate_latency :: "ServerState \<Rightarrow> py_error + real" where
  "simulate_latency s = (if latency s < 0 then Inl ValueError else Inr (latency s))"

definition simulate_error :: "ServerState \<Rightarrow> bool" where
  "simulate_error s = error_state s"

text \<open>The local values of \<open>update_state\<close>, as functions of \<open>time_diff\<close> and the draw.\<close>

definition latency_scale :: "real \<Rightarrow> real" where
  "latency_scale time_diff = min (max (time_diff / 5.0) 0.1) 2.0"

definition latency_change :: "real \<Rightarrow> real \<Rightarrow> real" where
  "latency_change u time_diff = u * latency_scale time_diff"

definition error_scale :: "real \<Rightarrow> real" where
  "error_scale time_diff = min (max (time_diff / 10.0) 0.1) 2.0"

text \<open>
  \<open>update_state\<close>: \<open>current_time\<close> is the clock reading, \<open>u\<close> the result of
  \<open>random.uniform(-0.1, 0.1)\<close> and \<open>r\<close> the result of \<open>random.random()\<close>.
\<close>

definition update_state :: "ServerState \<Rightarrow> real \<Rightarrow> real \<Rightarrow> real \<Rightarrow> ServerState" where
  "update_state s current_time u r =
     (let time_diff = current_time - last_request_time s;
          s1 = s\<lparr>last_request_time := current_time\<rparr>;
          s2 = s1\<lparr>latency := max 0.0 (latency s1 + latency_change u time_diff)\<rparr>
      in if r < 0.2 * error_scale time_diff
         then s2\<lparr>error_state := \<not> error_state s2\<rparr>
         else s2)"

subsection \<open>The endpoint handler\<close>

text \<open>
  A response is the dictionary handed to \<open>jsonify\<close>, as its list of items, and the
  status code.
\<close>

type_synonym response = "(string \<times> string) list \<times> nat"

text \<open>
  The state \<open>handle_request\<close> holds after its call of \<open>update_state\<close>: \<open>t0\<close> is the
  clock reading inside the constructor, \<open>t1\<close> the one inside \<open>update_state\<close>.
\<close>

definition handle_request_state :: "real \<Rightarrow> real \<Rightarrow> real \<Rightarrow> real \<Rightarrow> ServerState" where
  "handle_request_state t0 t1 u r = update_state (ServerState_init t0) t1 u r"

text \<open>\<open>handle_request\<close> returns the duration slept and the response, or the error raised.\<close>

definition handle_request :: "real \<Rightarrow> real \<Rightarrow> real \<Rightarrow> real \<Rightarrow> py_error + (real \<times> response)" where
  "handle_request t0 t1 u r =
     (let state = handle_request_state t0 t1 u r
      in case simulate_latency state of
           Inl e \<Rightarrow> Inl e
         | Inr slept \<Rightarrow>
             if simulate_error state
             then Inr (slept, ([(''error'', ''Simulated server error'')], 500))
             else Inr (slept, ([(''message'', ''Hello, World!'')], 200)))"

text \<open>The route \<open>GET /data\<close> of \<open>main\<close>: \<open>get_data\<close> returns what \<open>handle_request\<close> returns.\<close>

definition get_data :: "real \<Rightarrow> real \<Rightarrow> real \<Rightarrow> real \<Rightarrow> py_error + (real \<times> response)" where
  "get_data t0 t1 u r = handle_request t0 t1 u r"

subsection \<open>Sequences of calls\<close>

text \<open>
  A call of \<open>update_state\<close> is given by its clock reading and its two draws;
  \<open>run_states\<close> lists the state after each call of a sequence.
\<close>

type_synonym call = "real \<times> real \<times> real"

fun run_states :: "ServerState \<Rightarrow> call list \<Rightarrow> ServerState list" where
  "run_states s [] = []"
| "run_states s ((now, u, r) # cs) =
     (let s' = update_state s now u r in s' # run_states s' cs)"

text \<open>The state a sequence of calls ends in.\<close>

definition final_state :: "ServerState \<Rightarrow> call list \<Rightarrow> ServerState" where
  "final_state s cs = last (s # run_states s cs)"

text \<open>
  The condition of \<open>update_state\<close> under which the error flag is negated, and the number
  of calls of a sequence at which it holds.
\<close>

definition flips :: "ServerState \<Rightarrow> real \<Rightarrow> real \<Rightarrow> bool" where
  "flips s now r = (r < 0.2 * error_scale (now - last_request_time s))"

fun flip_count :: "ServerState \<Rightarrow> call list \<Rightarrow> nat" where
  "flip_count s [] = 0"
| "flip_count s ((now, u, r) # cs) =
     (if flips s now r then 1 else 0) + flip_count (update_state s now u r) cs"

subsection \<open>\<open>update_state\<close> in double precision\<close>

text \<open>
  A Python float is an IEEE 754 binary64 number. A finite double is modelled as the real
  number it denotes: \<open>fl x\<close> is the double nearest to \<open>x\<close>, ties going to the even
  significand, on the grid of spacing \<open>2 powi (expo x - 52)\<close>; \<open>expo x\<close> is the binary
  exponent of \<open>x\<close>, not below \<open>-1022\<close>, so that subnormal numbers are covered. Overflow to
  infinity is not modelled.
\<close>

definition round_even :: "real \<Rightarrow> int" where
  "round_even x =
     (let f = \<lfloor>x\<rfloor>; d = x - of_int f
      in if d < 1 / 2 then f else if 1 / 2 < d then f + 1 else if even f then f else f + 1)"

definition expo :: "real \<Rightarrow> int" where
  "expo x =
     max (- 1022)
       (if 1 \<le> \<bar>x\<bar> then bitlen \<lfloor>\<bar>x\<bar>\<rfloor> - 1 else - bitlen (\<lceil>1 / \<bar>x\<bar>\<rceil> - 1))"

definition fl :: "real \<Rightarrow> real" where
  "fl x = (let q = 2 powi (expo x - 52) in of_int (round_even (x / q)) * q)"

text \<open>
  \<open>update_state\<close> with the arguments doubles, every decimal literal and the result of
  every subtraction, division, multiplication and addition rounded. The literals \<open>5.0\<close>,
  \<open>10.0\<close>, \<open>2.0\<close> and \<open>0.0\<close> are doubles as they stand; \<open>max\<close> and \<open>min\<close> return one
  of their arguments.
\<close>

definition latency_scale_fl :: "real \<Rightarrow> real" where
  "latency_scale_fl time_diff = min (max (fl (time_diff / 5.0)) (fl 0.1)) 2.0"

definition error_scale_fl :: "real \<Rightarrow> real" where
  "error_scale_fl time_diff = min (max (fl (time_diff / 10.0)) (fl 0.1)) 2.0"

definition update_state_fl :: "ServerState \<Rightarrow> real \<Rightarrow> real \<Rightarrow> real \<Rightarrow> ServerState" where
  "update_state_fl s current_time u r =
     (let time_diff = fl (current_time - last_request_time s);
          s1 = s\<lparr>last_request_time := current_time\<rparr>;
          latency_change = fl (u * latency_scale_fl time_diff);
          s2 = s1\<lparr>latency := max 0.0 (fl (latency s1 + latency_change))\<rparr>
      in if r < fl (fl 0.2 * error_scale_fl time_diff)
         then s2\<lparr>error_state := \<not> error_state s2\<rparr>
         else s2)"

subsection \<open>The clamp of the specification\<close>

text \<open>\<open>clamp x lo hi\<close> as the specification uses it: \<open>x\<close> limited to \<open>[lo, hi]\<close>.\<close>

definition spec_clamp :: "real \<Rightarrow> real \<Rightarrow> real \<Rightarrow> real" where
  "spec_clamp x lo hi = (if x < lo then lo else if hi < x then hi else x)"

section \<open>Basic facts\<close>

lemma latency_scale_bounds: "0.1 \<le> latency_scale d \<and> latency_scale d \<le> 2.0"
  by (simp add: latency_scale_def)

lemma latency_scale_pos: "0 < latency_scale d"
  using latency_scale_bounds [of d] by simp

lemma latency_scale_mono: "d2 \<le> d1 \<Longrightarrow> latency_scale d2 \<le> latency_scale d1"
  by (simp add: latency_scale_def min_def max_def)

lemma abs_latency_change: "\<bar>latency_change u d\<bar> = \<bar>u\<bar> * latency_scale d"
  using latency_scale_pos [of d] by (simp add: latency_change_def abs_mult)

lemma latency_update_state:
  "latency (update_state s now u r) =
     max 0 (latency s + latency_change u (now - last_request_time s))"
  by (simp add: update_state_def Let_def)

lemma last_request_time_update_state:
  "last_request_time (update_state s now u r) = now"
  by (simp add: update_state_def Let_def)

lemma error_state_update_state:
  "error_state (update_state s now u r) =
     (if flips s now r then \<not> error_state s else error_state s)"
  by (simp add: update_state_def Let_def flips_def)

lemma final_state_Nil: "final_state s [] = s"
  by (simp add: final_state_def)

lemma final_state_Cons:
  "final_state s ((now, u, r) # cs) = final_state (update_state s now u r) cs"
  by (simp add: final_state_def Let_def)

text \<open>Setting the flag beforehand changes nothing of a call but the flag it leaves.\<close>

lemma update_state_error_state_upd:
  "update_state (s\<lparr>error_state := b\<rparr>) now u r =
     (update_state s now u r)\<lparr>error_state := (if flips s now r then \<not> b else b)\<rparr>"
  by (simp add: update_state_def Let_def flips_def)

lemma flips_error_state_upd: "flips (s\<lparr>error_state := b\<rparr>) now r = flips s now r"
  by (simp add: flips_def)

lemma flip_count_error_state_upd:
  "flip_count (s\<lparr>error_state := b\<rparr>) cs = flip_count s cs"
proof (induction cs arbitrary: s b)
  case Nil
  show ?case by simp
next
  case (Cons c cs)
  obtain now u r where c: "c = (now, u, r)" by (cases c)
  show ?case
    by (simp add: c flips_error_state_upd update_state_error_state_upd Cons.IH)
qed

lemma error_state_final_parity:
  "error_state (final_state s cs) =
     (if even (flip_count s cs) then error_state s else \<not> error_state s)"
proof (induction cs arbitrary: s)
  case Nil
  show ?case by (simp add: final_state_Nil)
next
  case (Cons c cs)
  obtain now u r where c: "c = (now, u, r)" by (cases c)
  show ?case
    by (simp add: c final_state_Cons Cons.IH error_state_update_state)
qed

text \<open>One call on a freshly constructed state leaves a latency of at most 0.2.\<close>

lemma latency_init_update_bound:
  assumes "- 0.1 \<le> u" and "u \<le> 0.1"
  shows "latency (update_state (ServerState_init t0) t1 u r) \<le> 0.2"
proof -
  let ?k = "latency_scale (t1 - t0)"
  have k: "0 < ?k" "?k \<le> 2"
    using latency_scale_bounds [of "t1 - t0"] by simp_all
  have "u * ?k \<le> 0.1 * ?k"
    using assms(2) k(1) by (simp add: mult_right_mono)
  also have "\<dots> \<le> 0.2"
    using k(2) by simp
  finally show ?thesis
    by (simp add: latency_update_state ServerState_init_def latency_change_def)
qed

subsection \<open>Double precision values\<close>

lemma latency_update_state_fl:
  "latency (update_state_fl s now u r) =
     max 0 (fl (latency s + fl (u * latency_scale_fl (fl (now - last_request_time s)))))"
  by (simp add: update_state_fl_def Let_def)

lemma error_state_update_state_fl:
  "error_state (update_state_fl s now u r) =
     (if r < fl (fl 0.2 * error_scale_fl (fl (now - last_request_time s)))
      then \<not> error_state s else error_state s)"
  by (simp add: update_state_fl_def Let_def)

lemma latency_scale_fl_one: "latency_scale_fl 1 = fl 0.2"
  by code_simp

lemma latency_scale_fl_zero: "latency_scale_fl 0 = fl 0.1"
  by code_simp

lemma error_scale_fl_one: "error_scale_fl 1 = fl 0.1"
  by code_simp

lemma fl_change: "fl (fl 0.05 * fl 0.2) = 5764607523034236 / 2 ^ 59"
  by code_simp

lemma fl_tenth_fifth: "fl 0.1 \<noteq> fl 0.2"
  by code_simp

lemma fl_elapsed_zero: "fl (fl (0 + 1.0) - 0) = 1.0"
  by code_simp

lemma fl_elapsed_large: "fl (fl (2 ^ 53 + 1.0) - 2 ^ 53) = 0"
  by code_simp

lemma latency_step_one:
  "max 0 (fl (0 + fl (fl 0.05 * latency_scale_fl 1))) = fl (fl 0.05 * fl 0.2)"
  by code_simp

lemma no_flip_one: "\<not> (fl 0.5 < fl (fl 0.2 * error_scale_fl 1))"
  by code_simp

text \<open>The latency the scenario call leaves when the computed elapsed time is one second.\<close>

lemma latency_scenario_fl:
  assumes "fl (fl (t0 + 1.0) - t0) = 1.0"
  shows "latency (update_state_fl \<lparr>latency = 0.0, error_rate = e, error_state = False,
             last_request_time = t0\<rparr> (fl (t0 + 1.0)) (fl 0.05) (fl 0.5))
           = fl (fl 0.05 * fl 0.2)"
proof -
  let ?S = "\<lparr>latency = 0.0, error_rate = e, error_state = False, last_request_time = t0\<rparr>"
  let ?d = "fl (fl (t0 + 1.0) - t0)"
  have d: "?d = 1" using assms by simp
  have "latency (update_state_fl ?S (fl (t0 + 1.0)) (fl 0.05) (fl 0.5))
          = max 0 (fl (0 + fl (fl 0.05 * latency_scale_fl ?d)))"
    by (simp add: latency_update_state_fl)
  also have "\<dots> = max 0 (fl (0 + fl (fl 0.05 * latency_scale_fl 1)))"
    by (simp only: d)
  also have "\<dots> = fl (fl 0.05 * fl 0.2)"
    by (rule latency_step_one)
  finally show ?thesis .
qed

section \<open>State across requests\<close>

text \<open>
  C1. The claim is that the state read by the \<open>update_state\<close> call of a request is the
  state the previous request left. \<open>handle_request\<close> constructs its own state: the first of
  two consecutive requests (clock 0, draws 0.1 and 0.5) leaves a latency of 0.01; the
  second (clock 1, draws 0.05 and 0.5) runs \<open>update_state\<close> on a new state of latency 0
  and ends with latency 0.005, where \<open>update_state\<close> on the state the first request left
  gives 0.02.
\<close>

theorem consecutive_requests_state_not_carried:
  "latency (handle_request_state 0 0 0.1 0.5) = 0.01 \<and>
   handle_request_state 1 1 0.05 0.5 = update_state (ServerState_init 1) 1 0.05 0.5 \<and>
   latency (ServerState_init 1) = 0 \<and>
   latency (handle_request_state 1 1 0.05 0.5) = 0.005 \<and>
   latency (update_state (handle_request_state 0 0 0.1 0.5) 1 0.05 0.5) = 0.02"
  by (simp add: handle_request_state_def latency_update_state last_request_time_update_state
      ServerState_init_def latency_change_def latency_scale_def)

section \<open>Non-negative latency\<close>

text \<open>
  C2. Along every sequence of \<open>update_state\<close> calls, for all clock readings and all
  draws, the latency is non-negative after every call. The starting state is arbitrary, so
  in particular it may be any state with a non-negative latency.
\<close>

theorem latency_nonneg_run:
  "\<forall>s' \<in> set (run_states s cs). 0 \<le> latency s'"
proof (induction cs arbitrary: s)
  case Nil
  show ?case by simp
next
  case (Cons c cs)
  obtain now u r where c: "c = (now, u, r)" by (cases c)
  have "0 \<le> latency (update_state s now u r)"
    by (simp add: latency_update_state)
  with Cons.IH [of "update_state s now u r"] show ?case
    by (simp add: c Let_def)
qed

theorem latency_nonneg_run_witness:
  "0 \<le> latency (update_state (ServerState_init 0) 100 (- 0.1) 0.5)"
proof -
  have "update_state (ServerState_init 0) 100 (- 0.1) 0.5
          \<in> set (run_states (ServerState_init 0) [(100, - 0.1, 0.5)])"
    by (simp add: Let_def)
  with latency_nonneg_run [of "ServerState_init 0" "[(100, - 0.1, 0.5)]"]
  show ?thesis by blast
qed

section \<open>The scale factors\<close>

text \<open>
  C3. For every \<open>elapsed \<ge> 0\<close> the latency scale of \<open>update_state\<close> is
  \<open>clamp(elapsed / 5.0, 0.1, 2.0)\<close>, the error scale is \<open>clamp(elapsed / 10.0, 0.1, 2.0)\<close>,
  and both lie in \<open>[0.1, 2.0]\<close>.
\<close>

theorem scale_factors_clamped:
  "0 \<le> elapsed \<Longrightarrow>
     latency_scale elapsed = spec_clamp (elapsed / 5.0) 0.1 2.0 \<and>
     error_scale elapsed = spec_clamp (elapsed / 10.0) 0.1 2.0 \<and>
     0.1 \<le> latency_scale elapsed \<and> latency_scale elapsed \<le> 2.0 \<and>
     0.1 \<le> error_scale elapsed \<and> error_scale elapsed \<le> 2.0"
  by (simp add: latency_scale_def error_scale_def spec_clamp_def)

theorem scale_factors_clamped_witness:
  "latency_scale 1 = spec_clamp (1 / 5.0) 0.1 2.0 \<and> latency_scale 1 = 0.2 \<and>
   error_scale 1 = spec_clamp (1 / 10.0) 0.1 2.0 \<and> error_scale 1 = 0.1"
  using scale_factors_clamped [of 1] by (simp add: spec_clamp_def)

section \<open>The error flag\<close>

text \<open>
  C4. The claim is that the flag is negated exactly when the draw is below the constant
  stored at construction, \<open>error_rate = 0.01\<close>, times the error scale. \<open>update_state\<close>
  compares the draw with \<open>0.2\<close> times the error scale and does not read the field: on a
  newly constructed state, with no time elapsed and the draw 0.01, the flag is negated
  although \<open>0.01 < 0.01 * 0.1\<close> is false.
\<close>

theorem flip_ignores_error_rate:
  "error_rate (ServerState_init 0) = 0.01 \<and>
   error_scale (0 - last_request_time (ServerState_init 0)) = 0.1 \<and>
   error_state (ServerState_init 0) = False \<and>
   error_state (update_state (ServerState_init 0) 0 0 0.01) = True \<and>
   \<not> (0.01 < error_rate (ServerState_init 0)
               * error_scale (0 - last_request_time (ServerState_init 0)))"
  by (simp add: error_state_update_state flips_def ServerState_init_def error_scale_def)

text \<open>
  C5. A call leaves the flag either as it was or negated, and which of the two does not
  depend on the flag; so after a sequence of calls the flag is the starting flag, negated
  once for every call at which the condition held. In particular a flag that starts false
  is false after a sequence without flips.
\<close>

theorem error_state_toggle:
  "error_state (update_state s now u r)
     = (if flips s now r then \<not> error_state s else error_state s) \<and>
   flips (s\<lparr>error_state := b\<rparr>) now r = flips s now r \<and>
   error_state (final_state s cs)
     = (if even (flip_count s cs) then error_state s else \<not> error_state s) \<and>
   flip_count (s\<lparr>error_state := b\<rparr>) cs = flip_count s cs \<and>
   (flip_count s cs = 0 \<longrightarrow> \<not> error_state s \<longrightarrow> \<not> error_state (final_state s cs))"
  by (simp add: error_state_update_state flips_error_state_upd error_state_final_parity
      flip_count_error_state_upd)

theorem error_state_toggle_witness:
  "flip_count (ServerState_init 0) [(1, 0.05, 0.5), (2, - 0.05, 0.9)] = 0 \<and>
   \<not> error_state (ServerState_init 0) \<and>
   \<not> error_state (final_state (ServerState_init 0) [(1, 0.05, 0.5), (2, - 0.05, 0.9)])"
proof -
  have n: "flip_count (ServerState_init 0) [(1, 0.05, 0.5), (2, - 0.05, 0.9)] = 0"
    by (simp add: flips_def error_scale_def ServerState_init_def
        last_request_time_update_state)
  have f: "\<not> error_state (ServerState_init 0)"
    by (simp add: ServerState_init_def)
  from n f error_state_toggle [of "ServerState_init 0" 0 0 0 False
      "[(1, 0.05, 0.5), (2, - 0.05, 0.9)]"]
  show ?thesis by blast
qed

section \<open>The scenario\<close>

text \<open>
  C6, as stated: from \<open>last_request_time = t0\<close>, \<open>latency = 0.0\<close> and a false flag, the
  call at \<open>t0 + 1.0\<close> with the draws 0.05 and 0.5 has latency scale 0.2 and leaves the
  latency 0.01. In double precision, at \<open>t0 = 0\<close> the latency left is neither the double
  \<open>0.01\<close> nor the real number 0.01, and at \<open>t0 = 2 ^ 53\<close> the elapsed time computed is 0
  and the latency scale is not 0.2.
\<close>

theorem scenario_exact_latency_counterexample:
  "latency (update_state_fl \<lparr>latency = 0.0, error_rate = fl 0.01, error_state = False,
       last_request_time = 0\<rparr> (fl (0 + 1.0)) (fl 0.05) (fl 0.5)) \<noteq> fl 0.01 \<and>
   latency (update_state_fl \<lparr>latency = 0.0, error_rate = fl 0.01, error_state = False,
       last_request_time = 0\<rparr> (fl (0 + 1.0)) (fl 0.05) (fl 0.5)) \<noteq> 0.01 \<and>
   latency_scale_fl (fl (fl (2 ^ 53 + 1.0) - 2 ^ 53)) \<noteq> fl 0.2"
proof -
  have l: "latency (update_state_fl \<lparr>latency = 0.0, error_rate = fl 0.01,
             error_state = False, last_request_time = 0\<rparr> (fl (0 + 1.0)) (fl 0.05) (fl 0.5))
           = 5764607523034236 / 2 ^ 59"
    using latency_scenario_fl [OF fl_elapsed_zero, of "fl 0.01"] fl_change
    by (simp only:)
  have "latency_scale_fl (fl (fl (2 ^ 53 + 1.0) - 2 ^ 53)) = fl 0.1"
    by (simp only: fl_elapsed_large latency_scale_fl_zero)
  with fl_tenth_fifth
  have s: "latency_scale_fl (fl (fl (2 ^ 53 + 1.0) - 2 ^ 53)) \<noteq> fl 0.2"
    by simp
  have n1: "(5764607523034236 / 2 ^ 59 :: real) \<noteq> fl 0.01"
    by code_simp
  have n2: "(5764607523034236 / 2 ^ 59 :: real) \<noteq> 0.01"
    by simp
  from n1 n2 s show ?thesis by (simp only: l) blast
qed

text \<open>
  C6, amended. In double precision, whenever the elapsed time computed from \<open>t0\<close> and
  \<open>t0 + 1.0\<close> is 1.0, the call with the draws 0.05 and 0.5 has the latency scale \<open>0.2\<close>
  and the error scale \<open>0.1\<close> (the doubles of these literals), leaves as latency the double
  product \<open>0.05 * 0.2\<close>, which is one unit in the last place, \<open>2 powi (-59)\<close>, above the
  double \<open>0.01\<close>, and leaves the flag false, since 0.5 is not below the double product
  \<open>0.2 * 0.1\<close>.
\<close>

theorem scenario_one_second_double:
  assumes "fl (fl (t0 + 1.0) - t0) = 1.0"
  shows "latency_scale_fl (fl (fl (t0 + 1.0) - t0)) = fl 0.2 \<and>
         error_scale_fl (fl (fl (t0 + 1.0) - t0)) = fl 0.1 \<and>
         latency (update_state_fl \<lparr>latency = 0.0, error_rate = e, error_state = False,
             last_request_time = t0\<rparr> (fl (t0 + 1.0)) (fl 0.05) (fl 0.5))
           = fl (fl 0.05 * fl 0.2) \<and>
         fl (fl 0.05 * fl 0.2) = fl 0.01 + 2 powi (- 59) \<and>
         \<not> (fl 0.5 < fl (fl 0.2 * fl 0.1)) \<and>
         error_state (update_state_fl \<lparr>latency = 0.0, error_rate = e, error_state = False,
             last_request_time = t0\<rparr> (fl (t0 + 1.0)) (fl 0.05) (fl 0.5)) = False"
proof -
  let ?S = "\<lparr>latency = 0.0, error_rate = e, error_state = False, last_request_time = t0\<rparr>"
  let ?d = "fl (fl (t0 + 1.0) - t0)"
  have d: "?d = 1" using assms by simp
  have c1: "latency_scale_fl ?d = fl 0.2"
    by (simp only: d latency_scale_fl_one)
  have c2: "error_scale_fl ?d = fl 0.1"
    by (simp only: d error_scale_fl_one)
  have c3: "latency (update_state_fl ?S (fl (t0 + 1.0)) (fl 0.05) (fl 0.5))
              = fl (fl 0.05 * fl 0.2)"
    by (rule latency_scenario_fl [OF assms])
  have c4: "fl (fl 0.05 * fl 0.2) = fl 0.01 + 2 powi (- 59)"
    by code_simp
  have c5: "\<not> (fl 0.5 < fl (fl 0.2 * fl 0.1))"
    by code_simp
  have "error_state (update_state_fl ?S (fl (t0 + 1.0)) (fl 0.05) (fl 0.5))
          = (if fl 0.5 < fl (fl 0.2 * error_scale_fl ?d) then True else False)"
    by (simp add: error_state_update_state_fl)
  also have "\<dots> = (if fl 0.5 < fl (fl 0.2 * error_scale_fl 1) then True else False)"
    by (simp only: d)
  also have "\<dots> = False"
    using no_flip_one by (simp only: if_False)
  finally have c6: "error_state (update_state_fl ?S (fl (t0 + 1.0)) (fl 0.05) (fl 0.5)) = False" .
  from c1 c2 c3 c4 c5 c6 show ?thesis by blast
qed

theorem scenario_one_second_double_witness:
  "fl (fl (0 + 1.0) - 0) = 1.0 \<and>
   latency (update_state_fl \<lparr>latency = 0.0, error_rate = fl 0.01, error_state = False,
       last_request_time = 0\<rparr> (fl (0 + 1.0)) (fl 0.05) (fl 0.5)) = 5764607523034236 / 2 ^ 59 \<and>
   fl (fl (1700000000.5 + 1.0) - 1700000000.5) = 1.0"
proof -
  have h: "fl (fl (0 + 1.0) - 0) = 1.0" by (rule fl_elapsed_zero)
  have h2: "fl (fl (1700000000.5 + 1.0) - 1700000000.5) = 1.0" by code_simp
  have v: "fl (fl 0.05 * fl 0.2) = 5764607523034236 / 2 ^ 59" by (rule fl_change)
  from h h2 v scenario_one_second_double [OF h, of "fl 0.01"] show ?thesis
    by (simp only:)
qed

section \<open>Idle amplification\<close>

text \<open>
  C7. Two calls from the same state with the same draws, the first after a non-negative
  elapsed time and the second after a longer one: the latency change computed by the
  second is at least as large in magnitude, and so is the change of the latency field.
\<close>

theorem latency_change_monotone:
  assumes "0 \<le> now2 - last_request_time s" and "now2 \<le> now1"
  shows "\<bar>latency_change u (now2 - last_request_time s)\<bar>
           \<le> \<bar>latency_change u (now1 - last_request_time s)\<bar> \<and>
         \<bar>latency (update_state s now2 u r) - latency s\<bar>
           \<le> \<bar>latency (update_state s now1 u r) - latency s\<bar>"
proof -
  let ?c2 = "latency_change u (now2 - last_request_time s)"
  let ?c1 = "latency_change u (now1 - last_request_time s)"
  have sc: "latency_scale (now2 - last_request_time s)
              \<le> latency_scale (now1 - last_request_time s)"
    using assms(2) by (intro latency_scale_mono) simp
  have mag: "\<bar>?c2\<bar> \<le> \<bar>?c1\<bar>"
    using sc by (simp add: abs_latency_change mult_left_mono)
  have sgn: "(0 \<le> ?c2 \<and> 0 \<le> ?c1) \<or> (?c2 \<le> 0 \<and> ?c1 \<le> 0)"
    using latency_scale_pos [of "now2 - last_request_time s"]
      latency_scale_pos [of "now1 - last_request_time s"]
    by (cases "0 \<le> u")
      (simp_all add: latency_change_def mult_nonneg_nonneg mult_nonpos_nonneg)
  have "\<bar>max 0 (latency s + ?c2) - latency s\<bar> \<le> \<bar>max 0 (latency s + ?c1) - latency s\<bar>"
    using mag sgn by (auto simp: max_def abs_if split: if_splits)
  with mag show ?thesis by (simp add: latency_update_state)
qed

theorem latency_change_monotone_witness:
  "latency (update_state (ServerState_init 0) 1 0.1 0.5) = 0.02 \<and>
   latency (update_state (ServerState_init 0) 20 0.1 0.5) = 0.2 \<and>
   \<bar>latency (update_state (ServerState_init 0) 1 0.1 0.5) - latency (ServerState_init 0)\<bar>
     \<le> \<bar>latency (update_state (ServerState_init 0) 20 0.1 0.5) - latency (ServerState_init 0)\<bar>"
proof -
  have h2: "0 \<le> 1 - last_request_time (ServerState_init 0)"
    by (simp add: ServerState_init_def)
  have h1: "(1::real) \<le> 20" by simp
  have v: "latency (update_state (ServerState_init 0) 1 0.1 0.5) = 0.02 \<and>
           latency (update_state (ServerState_init 0) 20 0.1 0.5) = 0.2"
    by (simp add: latency_update_state ServerState_init_def latency_change_def
        latency_scale_def)
  from v h2 h1 latency_change_monotone [of 1 "ServerState_init 0" 20 "0.1" "0.5"]
  show ?thesis by blast
qed

section \<open>The endpoint\<close>

text \<open>
  C9. A request to \<open>GET /data\<close> raises nothing and has one of two outcomes: status 500
  with the body \<open>{"error": "Simulated server error"}\<close> when the flag is set after the
  \<open>update_state\<close> call, status 200 with the body \<open>{"message": "Hello, World!"}\<close> when it
  is not.
\<close>

theorem get_data_outcomes:
  "get_data t0 t1 u r =
     Inr (latency (handle_request_state t0 t1 u r),
          if error_state (handle_request_state t0 t1 u r)
          then ([(''error'', ''Simulated server error'')], 500)
          else ([(''message'', ''Hello, World!'')], 200))"
  by (simp add: get_data_def handle_request_def simulate_latency_def simulate_error_def
      handle_request_state_def latency_update_state Let_def)

text \<open>
  C10. Whatever the clock readings and the second draw, with the first draw in
  \<open>[-0.1, 0.1]\<close> as \<open>random.uniform(-0.1, 0.1)\<close> returns it, \<open>handle_request\<close> sleeps for
  a duration in \<open>[0, 0.2]\<close> seconds before it responds.
\<close>

theorem handle_request_sleep_bounded:
  "- 0.1 \<le> u \<Longrightarrow> u \<le> 0.1 \<Longrightarrow>
     \<exists>slept resp. handle_request t0 t1 u r = Inr (slept, resp) \<and> 0 \<le> slept \<and> slept \<le> 0.2"
  using latency_init_update_bound [of u t0 t1 r]
  by (simp add: handle_request_def handle_request_state_def simulate_latency_def
      simulate_error_def latency_update_state Let_def)

theorem handle_request_sleep_bounded_witness:
  "handle_request 0 100 0.1 0.5 = Inr (0.2, ([(''message'', ''Hello, World!'')], 200))"
proof -
  have v: "handle_request 0 100 0.1 0.5 = Inr (0.2, ([(''message'', ''Hello, World!'')], 200))"
    by (simp add: handle_request_def handle_request_state_def simulate_latency_def
        simulate_error_def latency_update_state error_state_update_state flips_def
        ServerState_init_def latency_change_def latency_scale_def error_scale_def Let_def)
  have h: "- 0.1 \<le> (0.1::real)" "(0.1::real) \<le> 0.1" by simp_all
  from v h handle_request_sleep_bounded [of "0.1" 0 100 "0.5"] show ?thesis by blast
qed

end
